theory Spec2Isabelle
  imports Complex_Main
begin

section \<open>Numbers of the program\<close>

text \<open>
  The Go sources compute with \<open>float64\<close> and \<open>int\<close>.

  \<^item> A finite \<open>float64\<close> is modelled by the real number it denotes, and the arithmetic on
    it is exact: the rounding of IEEE-754 operations, infinities and NaN are outside this
    part of the model (the function \<open>Round\<close> is modelled a second time over the IEEE-754
    value space below, where its behaviour on signed zero, infinities and NaN is stated).
    A decimal literal of the source such as \<open>0.1\<close> is the real number \<open>1 / 10\<close>.
  \<^item> Go's \<open>int\<close> is the 64-bit two's-complement integer of the usual platforms. The
    multipliers of \<open>RoundToNonZeroPlaces\<close> are powers of ten built by repeated
    multiplication, which leave that range after nineteen steps, so every multiplication
    there wraps around through \<open>int64\<close>. Sizes of the terminal (graph heights and widths
    in cells) and pixel positions are far from that range and are plain integers.
\<close>

type_synonym float64 = real

definition int64 :: "int \<Rightarrow> int" where
  "int64 i = (i + 2 ^ 63) mod 2 ^ 64 - 2 ^ 63"

text \<open>The conversion \<open>int(f)\<close> of a float to an integer discards the fraction.\<close>

definition toInt :: "float64 \<Rightarrow> int" where
  "toInt f = (if f < 0 then \<lceil>f\<rceil> else \<lfloor>f\<rfloor>)"

section \<open>Package numbers\<close>

subsection \<open>RoundToNonZeroPlaces and its helpers\<close>

text \<open>
  \<open>multToNonZero\<close>: the loop \<open>for v < 0.1 { v *= 10; mult *= 10 }\<close>. It does not end
  when \<open>v\<close> is zero, so the loop is a partial function and not returning is \<open>None\<close>.
\<close>

partial_function (option) multToNonZero_loop :: "float64 \<Rightarrow> int \<Rightarrow> int option" where
  "multToNonZero_loop v mult =
     (if v < 1 / 10 then multToNonZero_loop (v * 10) (int64 (mult * 10)) else Some mult)"

definition multToNonZero :: "float64 \<Rightarrow> int option" where
  "multToNonZero f = (let v = (if f < 0 then f * - 1 else f) in multToNonZero_loop v 1)"

text \<open>\<open>placesToMult\<close>: the loop \<open>for i := 0; i < places; i++ { mult *= 10 }\<close>.\<close>

fun placesToMult_loop :: "nat \<Rightarrow> int \<Rightarrow> int" where
  "placesToMult_loop 0 mult = mult"
| "placesToMult_loop (Suc n) mult = placesToMult_loop n (int64 (mult * 10))"

definition placesToMult :: "int \<Rightarrow> int" where
  "placesToMult places =
     (let p = (if places < 0 then int64 (places * - 1) else places)
      in placesToMult_loop (nat p) 1)"

text \<open>
  \<open>multToPlaces\<close>: the loop \<open>for mult > 1 { mult /= 10; places++ }\<close>. The division
  is only reached with a positive \<open>mult\<close>, where Go's truncating division is \<open>div\<close>.
\<close>

function multToPlaces_loop :: "int \<Rightarrow> int \<Rightarrow> int" where
  "multToPlaces_loop mult places =
     (if mult > 1 then multToPlaces_loop (mult div 10) (places + 1) else places)"
  by pat_completeness auto
termination
  by (relation "measure (\<lambda>(mult, places). nat mult)") auto

definition multToPlaces :: "int \<Rightarrow> int" where
  "multToPlaces mult = multToPlaces_loop mult 0"

definition zeroBeforeDecimal :: "float64 \<Rightarrow> float64" where
  "zeroBeforeDecimal f =
     (let sign = (if f < 0 then - 1 else 1);
          f' = (if f < 0 then f * - 1 else f);
          floor = real_of_int \<lfloor>f'\<rfloor>
      in (f' - floor) * sign)"

text \<open>
  The result is \<open>None\<close> only if the loop of \<open>multToNonZero\<close> does not return; lemma
  \<open>RoundToNonZeroPlaces_returns\<close> shows that this never happens. The multiplier \<open>m\<close> is
  \<open>float64(nzMult * plMult)\<close>, an integer product that wraps around. Where it wraps to
  zero the Go code divides by zero and yields NaN, which a real number cannot express;
  the model has \<open>x / 0 = 0\<close> there, and no theorem below is about that case.
\<close>

definition RoundToNonZeroPlaces :: "float64 \<Rightarrow> int \<Rightarrow> (float64 \<times> int) option" where
  "RoundToNonZeroPlaces f places =
     (if f = 0 then Some (0, 0)
      else let decOnly = zeroBeforeDecimal f in
        if decOnly = 0 then Some (f, 0)
        else case multToNonZero decOnly of
               None \<Rightarrow> None
             | Some nzMult \<Rightarrow>
                 if places = 0 then Some (f, multToPlaces nzMult)
                 else let plMult = placesToMult places;
                          m = real_of_int (int64 (nzMult * plMult))
                      in Some (real_of_int \<lceil>f * m\<rceil> / m, multToPlaces nzMult))"

subsection \<open>Round\<close>

definition Trunc :: "float64 \<Rightarrow> float64" where
  "Trunc x = real_of_int (toInt x)"

definition Copysign :: "float64 \<Rightarrow> float64 \<Rightarrow> float64" where
  "Copysign f sign = (if sign < 0 then - \<bar>f\<bar> else \<bar>f\<bar>)"

definition Round :: "float64 \<Rightarrow> float64" where
  "Round x =
     (let t = Trunc x
      in if \<bar>x - t\<bar> \<ge> 1 / 2 then t + Copysign 1 x else t)"

subsection \<open>MinMax and MinMaxInts\<close>

definition MaxFloat64 :: float64 where
  "MaxFloat64 = (2 ^ 53 - 1) * 2 ^ 971"

definition MaxInt32 :: int where
  "MaxInt32 = 2147483647"

text \<open>The body of \<open>for _, v := range values\<close>, on the running pair \<open>(min, max)\<close>.\<close>

fun MinMax_loop :: "float64 list \<Rightarrow> float64 \<Rightarrow> float64 \<Rightarrow> float64 \<times> float64" where
  "MinMax_loop [] mn mx = (mn, mx)"
| "MinMax_loop (v # vs) mn mx =
     MinMax_loop vs (if v < mn then v else mn) (if v > mx then v else mx)"

definition MinMax :: "float64 list \<Rightarrow> float64 \<times> float64" where
  "MinMax values =
     (if length values = 0 then (0, 0)
      else MinMax_loop values MaxFloat64 (- 1 * MaxFloat64))"

fun MinMaxInts_loop :: "int list \<Rightarrow> int \<Rightarrow> int \<Rightarrow> int \<times> int" where
  "MinMaxInts_loop [] mn mx = (mn, mx)"
| "MinMaxInts_loop (v # vs) mn mx =
     MinMaxInts_loop vs (if v < mn then v else mn) (if v > mx then v else mx)"

definition MinMaxInts :: "int list \<Rightarrow> int \<times> int" where
  "MinMaxInts values =
     (if length values = 0 then (0, 0)
      else MinMaxInts_loop values MaxInt32 (- 1 * MaxInt32))"

subsection \<open>RadiansToDegrees\<close>



subsection \<open>Round over the IEEE-754 value space\<close>












section \<open>Package axes: the scale of the Y axis\<close>

text \<open>
  The errors of the package are built with \<open>fmt.Errorf\<close>; they are told apart here by the
  kind of failure they report.
\<close>

datatype error = InvalidRange | InvalidSize | OutOfBounds

text \<open>
  Modelled from the spec: the constant \<open>braille.RowMult\<close> of the canvas package, the number
  of sub-cell rows in one terminal cell. The package is not part of the sources at hand;
  a braille cell has four rows of dots, which is also the value the expected labels of
  \<open>TestYLabels\<close> are computed with.
\<close>

definition RowMult :: int where
  "RowMult = 4"

text \<open>
  Modelled from the spec: the type \<open>Value\<close> and its constructor \<open>NewValue\<close>, which are
  not part of the sources at hand. A value keeps the raw number, the number rounded by
  \<open>RoundToNonZeroPlaces\<close> and the precision that was asked for.
\<close>

record Value =
  Value :: float64
  Rounded :: float64
  NonZeroDecimals :: int

definition NewValue :: "float64 \<Rightarrow> int \<Rightarrow> Value option" where
  "NewValue v nonZeroDecimals =
     (case RoundToNonZeroPlaces v nonZeroDecimals of
        None \<Rightarrow> None
      | Some (r, zd) \<Rightarrow> Some \<lparr>Value = v, Rounded = r, NonZeroDecimals = nonZeroDecimals\<rparr>)"

text \<open>
  The fields \<open>Min\<close>, \<open>Max\<close> and \<open>Step\<close> of the Go struct are \<open>MinV\<close>, \<open>MaxV\<close> and
  \<open>StepV\<close> here, since \<open>Min\<close> and \<open>Max\<close> are constants of HOL.
\<close>

record YScale =
  MinV :: Value
  MaxV :: Value
  StepV :: Value
  GraphHeight :: int
  brailleHeight :: int

text \<open>
  \<open>NewYScale\<close> returns an error or a scale; the outer \<open>option\<close> is inherited from
  \<open>RoundToNonZeroPlaces\<close> and is never \<open>None\<close> (lemma \<open>NewYScale_returns\<close>).
\<close>

definition NewYScale :: "float64 \<Rightarrow> float64 \<Rightarrow> int \<Rightarrow> int \<Rightarrow> (error + YScale) option" where
  "NewYScale minv maxv graphHeight nonZeroDecimals =
     (if maxv < minv then Some (Inl InvalidRange)
      else if graphHeight < 1 then Some (Inl InvalidSize)
      else
        let bh = graphHeight * RowMult;
            usablePixels = bh - 1;
            minv' = (if minv > 0 then 0 else minv);
            maxv' = (if maxv < 0 then 0 else maxv);
            diff = maxv' - minv'
        in case NewValue (diff / real_of_int usablePixels) nonZeroDecimals of
             None \<Rightarrow> None
           | Some step \<Rightarrow>
               (case NewValue minv' nonZeroDecimals of
                  None \<Rightarrow> None
                | Some mn \<Rightarrow>
                    (case NewValue maxv' nonZeroDecimals of
                       None \<Rightarrow> None
                     | Some mx \<Rightarrow>
                         Some (Inr \<lparr>MinV = mn, MaxV = mx, StepV = step,
                                    GraphHeight = graphHeight, brailleHeight = bh\<rparr>))))"

definition positionToY :: "int \<Rightarrow> int \<Rightarrow> error + int" where
  "positionToY pos height =
     (let mx = height - 1
      in if pos < 0 \<or> pos > mx then Inl OutOfBounds else Inr (mx - pos))"



definition YScale_ValueToPixel :: "YScale \<Rightarrow> float64 \<Rightarrow> error + int" where
  "YScale_ValueToPixel ys v =
     (if Rounded (StepV ys) = 0 then Inr 0
      else
        let v' = (if Value (MinV ys) < 0
                  then let diff = - 1 * Value (MinV ys) in v + diff
                  else v);
            pos = toInt (Round (v' / Rounded (StepV ys)))
        in positionToY pos (brailleHeight ys))"

subsection \<open>Two scales of the tests\<close>


definition flat_scale :: YScale where
  "flat_scale =
     \<lparr>MinV = \<lparr>Value = 0, Rounded = 0, NonZeroDecimals = 2\<rparr>,
      MaxV = \<lparr>Value = 0, Rounded = 0, NonZeroDecimals = 2\<rparr>,
      StepV = \<lparr>Value = 0, Rounded = 0, NonZeroDecimals = 2\<rparr>,
      GraphHeight = 2, brailleHeight = 8\<rparr>"

section \<open>Integers that fit and loops that return\<close>



text \<open>The loop of \<open>multToNonZero\<close> returns on every positive argument.\<close>

lemma multToNonZero_loop_returns_aux:
  "1 / 10 \<le> v * 10 ^ n \<Longrightarrow> \<exists>m. multToNonZero_loop v mult = Some m"
proof (induction n arbitrary: v mult)
  case 0
  then show ?case by (simp add: multToNonZero_loop.simps)
next
  case (Suc n)
  show ?case
  proof (cases "v < 1 / 10")
    case True
    have "1 / 10 \<le> (v * 10) * 10 ^ n" using Suc.prems by (simp add: mult.assoc)
    from Suc.IH [OF this, of "int64 (mult * 10)"] True show ?thesis
      by (subst multToNonZero_loop.simps) simp
  next
    case False
    then show ?thesis by (subst multToNonZero_loop.simps) simp
  qed
qed

lemma multToNonZero_loop_returns:
  assumes "0 < v"
  shows "\<exists>m. multToNonZero_loop v mult = Some m"
proof -
  obtain n where "1 / (10 * v) < 10 ^ n"
    using real_arch_pow [of 10 "1 / (10 * v)"] by auto
  then have "1 / 10 \<le> v * 10 ^ n" using assms by (simp add: field_simps)
  then show ?thesis by (rule multToNonZero_loop_returns_aux)
qed

lemma multToNonZero_returns: "f \<noteq> 0 \<Longrightarrow> \<exists>m. multToNonZero f = Some m"
  unfolding multToNonZero_def Let_def
  by (cases "f < 0") (auto intro: multToNonZero_loop_returns)

lemma RoundToNonZeroPlaces_returns: "\<exists>r z. RoundToNonZeroPlaces f places = Some (r, z)"
proof -
  { assume "zeroBeforeDecimal f \<noteq> 0"
    then obtain m where "multToNonZero (zeroBeforeDecimal f) = Some m"
      using multToNonZero_returns by blast
    then have ?thesis by (simp add: RoundToNonZeroPlaces_def Let_def) }
  then show ?thesis
    by (cases "zeroBeforeDecimal f = 0") (auto simp: RoundToNonZeroPlaces_def Let_def)
qed




text \<open>The equations that evaluate \<open>RoundToNonZeroPlaces\<close> on a literal.\<close>

lemmas RoundToNonZeroPlaces_eval =
  RoundToNonZeroPlaces_def zeroBeforeDecimal_def multToNonZero_def multToNonZero_loop.simps
  multToPlaces_def placesToMult_def int64_def Let_def eval_nat_numeral

section \<open>RoundToNonZeroPlaces rounds up while its multiplier fits\<close>






section \<open>Round: to the nearest integer, halves away from zero\<close>









section \<open>MinMax and MinMaxInts against the true extrema\<close>

lemma MinMax_loop_Min_Max:
  "MinMax_loop vs mn mx = (Min (insert mn (set vs)), Max (insert mx (set vs)))"
proof (induction vs arbitrary: mn mx)
  case Nil
  then show ?case by simp
next
  case (Cons v vs)
  have a: "Min (insert (if v < mn then v else mn) (set vs)) = Min (insert mn (insert v (set vs)))"
    by (cases "set vs = {}") (auto simp: min_def)
  have b: "Max (insert (if v > mx then v else mx) (set vs)) = Max (insert mx (insert v (set vs)))"
    by (cases "set vs = {}") (auto simp: max_def)
  show ?case using Cons.IH [of "if v < mn then v else mn" "if v > mx then v else mx"] a b
    by simp
qed

lemma MinMaxInts_loop_Min_Max:
  "MinMaxInts_loop vs mn mx = (Min (insert mn (set vs)), Max (insert mx (set vs)))"
proof (induction vs arbitrary: mn mx)
  case Nil
  then show ?case by simp
next
  case (Cons v vs)
  have a: "Min (insert (if v < mn then v else mn) (set vs)) = Min (insert mn (insert v (set vs)))"
    by (cases "set vs = {}") (auto simp: min_def)
  have b: "Max (insert (if v > mx then v else mx) (set vs)) = Max (insert mx (insert v (set vs)))"
    by (cases "set vs = {}") (auto simp: max_def)
  show ?case using Cons.IH [of "if v < mn then v else mn" "if v > mx then v else mx"] a b
    by simp
qed

lemma MinMax_empty: "MinMax [] = (0, 0) \<and> MinMaxInts [] = (0, 0)"
  by (simp add: MinMax_def MinMaxInts_def)

text \<open>
  Every finite \<open>float64\<close> lies between \<open>-MaxFloat64\<close> and \<open>MaxFloat64\<close>, the values the
  loop of \<open>MinMax\<close> starts from, so on finite values \<open>MinMax\<close> is right.
\<close>

lemma MinMax_finite:
  assumes "vs \<noteq> []" and "\<forall>v\<in>set vs. - MaxFloat64 \<le> v \<and> v \<le> MaxFloat64"
  shows "MinMax vs = (Min (set vs), Max (set vs))"
proof -
  have "Min (insert MaxFloat64 (set vs)) = Min (set vs)"
    using assms by (simp add: min_absorb2)
  moreover have "Max (insert (- MaxFloat64) (set vs)) = Max (set vs)"
    using assms by (simp add: max_absorb2)
  ultimately show ?thesis using assms(1)
    by (simp add: MinMax_def MinMax_loop_Min_Max)
qed

text \<open>
  \<open>MinMaxInts\<close> starts from \<open>MaxInt32\<close> and \<open>-MaxInt32\<close> although its values are of
  type \<open>int\<close>: it is right only while every value lies between the two.
\<close>

lemma MinMaxInts_int32:
  assumes "vs \<noteq> []" and "\<forall>v\<in>set vs. - MaxInt32 \<le> v \<and> v \<le> MaxInt32"
  shows "MinMaxInts vs = (Min (set vs), Max (set vs))"
proof -
  have "Min (insert MaxInt32 (set vs)) = Min (set vs)"
    using assms by (simp add: min_absorb2)
  moreover have "Max (insert (- MaxInt32) (set vs)) = Max (set vs)"
    using assms by (simp add: max_absorb2)
  ultimately show ?thesis using assms(1)
    by (simp add: MinMaxInts_def MinMaxInts_loop_Min_Max)
qed

lemma MinMaxInts_above_int32: "MinMaxInts [2147483648] = (2147483647, 2147483648)"
  by (simp add: MinMaxInts_def MaxInt32_def)

text \<open>
  Claim C7 says that \<open>MinMaxInts\<close> returns the true minimum and the true maximum of every
  non-empty list. On the list that holds only \<open>-2147483648\<close>, the least 32-bit integer,
  the code returns the maximum \<open>-2147483647\<close>, a number that is not in the list: the
  loop starts from \<open>-1 * math.MaxInt32\<close> and no value of the list is greater.
\<close>

theorem MinMaxInts_sentinel:
  "MinMaxInts [- 2147483648] = (- 2147483648, - 2147483647) \<and>
   Max (set [- 2147483648 :: int]) = - 2147483648"
  by (simp add: MinMaxInts_def MaxInt32_def)

section \<open>RadiansToDegrees adds one turn to a negative angle\<close>





section \<open>The scale of the Y axis\<close>

lemma NewValue_returns:
  "\<exists>val. NewValue v n = Some val \<and> Value val = v \<and> NonZeroDecimals val = n"
proof -
  obtain r z where "RoundToNonZeroPlaces v n = Some (r, z)"
    using RoundToNonZeroPlaces_returns by blast
  then show ?thesis by (simp add: NewValue_def)
qed


lemma NewYScale_returns: "NewYScale minv maxv graphHeight nonZeroDecimals \<noteq> None"
proof -
  obtain a b c where
    "NewValue (((if maxv < 0 then 0 else maxv) - (if minv > 0 then 0 else minv)) /
        real_of_int (graphHeight * RowMult - 1)) nonZeroDecimals = Some a"
    "NewValue (if minv > 0 then 0 else minv) nonZeroDecimals = Some b"
    "NewValue (if maxv < 0 then 0 else maxv) nonZeroDecimals = Some c"
    using NewValue_returns by metis
  then show ?thesis by (simp add: NewYScale_def Let_def)
qed


lemmas NewYScale_eval = NewYScale_def NewValue_def RowMult_def RoundToNonZeroPlaces_eval


lemma NewYScale_flat: "NewYScale 0 0 2 2 = Some (Inr flat_scale)"
  by (simp add: NewYScale_eval flat_scale_def)








text \<open>
  Claim C10: on a scale whose \<open>Step.Rounded\<close> is zero, \<open>ValueToPixel(v)\<close> returns the
  pixel \<open>0\<close> and no error for every \<open>v\<close>, however far outside the scale: the test of
  the step comes before every check of the bounds.
\<close>

theorem YScale_ValueToPixel_degenerate:
  "Rounded (StepV ys) = 0 \<Longrightarrow> YScale_ValueToPixel ys v = Inr 0"
  by (simp add: YScale_ValueToPixel_def)

text \<open>The scale of \<open>NewYScale(0, 0, 2, 2)\<close> is flat; the value one million is far outside.\<close>

theorem YScale_ValueToPixel_degenerate_witness:
  "NewYScale 0 0 2 2 = Some (Inr flat_scale) \<and>
   Rounded (StepV flat_scale) = 0 \<and>
   YScale_ValueToPixel flat_scale 1000000 = Inr 0 \<and>
   YScale_ValueToPixel flat_scale (- 1000000) = Inr 0"
proof -
  have st: "Rounded (StepV flat_scale) = 0" by (simp add: flat_scale_def)
  from YScale_ValueToPixel_degenerate [OF st, of 1000000]
    YScale_ValueToPixel_degenerate [OF st, of "- 1000000"] st NewYScale_flat
  show ?thesis by simp
qed

end
